theory Spec2Isabelle
  imports Main "HOL-Library.Word"
begin

section \<open>The storage wrapper of \<open>mira_py_devkit/cloud_storager/aws_s3.py\<close>\<close>

text \<open>
  The module wraps two libraries, \<open>boto3\<close> and \<open>requests\<close>. Their functions are not
  part of the module, so they are parameters of the model (the record \<open>env\<close>): each
  takes the state of the outside world (network, storage service), of an arbitrary
  type \<open>'w\<close>, and returns its outcome with the new state. An exception is a value of
  type \<open>exn\<close>; a function that can raise returns \<open>exn + 'a\<close>, or \<open>exn option\<close> when
  it returns nothing. Every call of a library function is appended to a log, so that
  what was called, with what arguments and how often, can be stated.
\<close>

subsection \<open>Values, exceptions and the outside world\<close>

type_synonym byte = "8 word"

text \<open>A Python value that is \<open>None\<close> or a string (the argument \<open>endpoint_url\<close>).\<close>

datatype pyval = PyNone | PyStr string

text \<open>
  \<open>TypeError\<close> is what the interpreter raises when a required argument is missing (it
  carries the parameter's name here), \<open>ValueError\<close> is raised by \<open>_check_acl\<close>, and
  \<open>LibraryError cls msg\<close> stands for whatever a library raises.
\<close>

datatype exn = TypeError string | ValueError string | LibraryError string string

text \<open>\<open>requests.Response\<close>: the two attributes the module depends on.\<close>

record response =
  status_code :: int
  content :: "byte list"

text \<open>\<open>io.BytesIO(initial_bytes)\<close>: an in-memory stream over a copy of the bytes, at offset 0.\<close>

record bytesio =
  buffer :: "byte list"
  position :: nat

definition BytesIO :: "byte list \<Rightarrow> bytesio" where
  "BytesIO initial_bytes = \<lparr>buffer = initial_bytes, position = 0\<rparr>"

text \<open>\<open>stream.read()\<close>: everything from the current offset to the end.\<close>

definition bytesio_read :: "bytesio \<Rightarrow> byte list" where
  "bytesio_read s = drop (position s) (buffer s)"

text \<open>The calls the module makes into the libraries; \<open>'c\<close> is the SDK's client object.\<close>

datatype 'c call =
    Boto3Client string string pyval string
  | UploadFile 'c string string string "(string \<times> string) list"
  | PutObject 'c string string bytesio string
  | RequestsGet string

record ('c, 'w) world =
  ext :: 'w
  calls :: "'c call list"

text \<open>
  The libraries. \<open>boto3_client service_name aws_access_key_id endpoint_url
  aws_secret_access_key\<close>, \<open>upload_file client Filename Bucket Key ExtraArgs\<close>,
  \<open>put_object client Bucket Key Body ACL\<close>, \<open>requests_get url\<close> and
  \<open>raise_for_status response\<close>.
\<close>

record ('c, 'w) env =
  boto3_client :: "string \<Rightarrow> string \<Rightarrow> pyval \<Rightarrow> string \<Rightarrow> 'w \<Rightarrow> (exn + 'c) \<times> 'w"
  upload_file :: "'c \<Rightarrow> string \<Rightarrow> string \<Rightarrow> string \<Rightarrow> (string \<times> string) list \<Rightarrow> 'w \<Rightarrow> exn option \<times> 'w"
  put_object :: "'c \<Rightarrow> string \<Rightarrow> string \<Rightarrow> bytesio \<Rightarrow> string \<Rightarrow> 'w \<Rightarrow> exn option \<times> 'w"
  requests_get :: "string \<Rightarrow> 'w \<Rightarrow> (exn + response) \<times> 'w"
  raise_for_status :: "response \<Rightarrow> exn option"

text \<open>A library call: run it on the outside world and log it.\<close>

definition call_boto3_client ::
  "('c, 'w) env \<Rightarrow> string \<Rightarrow> string \<Rightarrow> pyval \<Rightarrow> string \<Rightarrow> ('c, 'w) world \<Rightarrow> (exn + 'c) \<times> ('c, 'w) world" where
  "call_boto3_client env service k endpoint s w =
     (let (r, x) = boto3_client env service k endpoint s (ext w)
      in (r, \<lparr>ext = x, calls = calls w @ [Boto3Client service k endpoint s]\<rparr>))"

definition call_upload_file ::
  "('c, 'w) env \<Rightarrow> 'c \<Rightarrow> string \<Rightarrow> string \<Rightarrow> string \<Rightarrow> (string \<times> string) list \<Rightarrow> ('c, 'w) world
     \<Rightarrow> exn option \<times> ('c, 'w) world" where
  "call_upload_file env c filename bucket key extra_args w =
     (let (r, x) = upload_file env c filename bucket key extra_args (ext w)
      in (r, \<lparr>ext = x, calls = calls w @ [UploadFile c filename bucket key extra_args]\<rparr>))"

definition call_put_object ::
  "('c, 'w) env \<Rightarrow> 'c \<Rightarrow> string \<Rightarrow> string \<Rightarrow> bytesio \<Rightarrow> string \<Rightarrow> ('c, 'w) world
     \<Rightarrow> exn option \<times> ('c, 'w) world" where
  "call_put_object env c bucket key body acl w =
     (let (r, x) = put_object env c bucket key body acl (ext w)
      in (r, \<lparr>ext = x, calls = calls w @ [PutObject c bucket key body acl]\<rparr>))"

definition call_requests_get ::
  "('c, 'w) env \<Rightarrow> string \<Rightarrow> ('c, 'w) world \<Rightarrow> (exn + response) \<times> ('c, 'w) world" where
  "call_requests_get env url w =
     (let (r, x) = requests_get env url (ext w)
      in (r, \<lparr>ext = x, calls = calls w @ [RequestsGet url]\<rparr>))"

text \<open>A parameter with a default: an argument that was not passed (\<open>None\<close>) takes it.\<close>

definition default_arg :: "'a \<Rightarrow> 'a option \<Rightarrow> 'a" where
  "default_arg d a = (case a of None \<Rightarrow> d | Some v \<Rightarrow> v)"

subsection \<open>class AmazonS3\<close>

record 'c AmazonS3 =
  aws_access_key_id :: string
  aws_secret_access_key :: string
  s3_raw_client :: 'c

definition VALID_ACL :: "string list" where
  "VALID_ACL =
     [''private'',
      ''public-read'',
      ''public-read-write'',
      ''authenticated-read'',
      ''aws-exec-read'',
      ''bucket-owner-read'',
      ''bucket-owner-full-control'',
      ''log-delivery-write'']"

text \<open>
  \<open>__init__(self, aws_access_key_id, aws_secret_access_key, endpoint_url=None)\<close>. The two
  attributes are assigned before \<open>boto3.client\<close> is called; when that raises, the
  exception leaves the constructor and no object is returned.
\<close>

definition AmazonS3_init ::
  "('c, 'w) env \<Rightarrow> string \<Rightarrow> string \<Rightarrow> pyval option \<Rightarrow> ('c, 'w) world
     \<Rightarrow> (exn + 'c AmazonS3) \<times> ('c, 'w) world" where
  "AmazonS3_init env key_id secret endpoint_url_arg w =
     (let endpoint_url = default_arg PyNone endpoint_url_arg;
          (r, w1) = call_boto3_client env ''s3'' key_id endpoint_url secret w
      in case r of
           Inl e \<Rightarrow> (Inl e, w1)
         | Inr c \<Rightarrow>
             (Inr \<lparr>aws_access_key_id = key_id, aws_secret_access_key = secret, s3_raw_client = c\<rparr>,
              w1))"

text \<open>
  \<open>_check_acl(self, acl)\<close>. A method takes the object and returns it with its outcome,
  so that what it does to the object's attributes can be stated.
\<close>

definition check_acl ::
  "'c AmazonS3 \<Rightarrow> string \<Rightarrow> ('c, 'w) world \<Rightarrow> (exn + unit) \<times> 'c AmazonS3 \<times> ('c, 'w) world" where
  "check_acl self acl w =
     (if acl \<noteq> [] \<and> acl \<notin> set VALID_ACL
      then (Inl (ValueError (''Invalid ACL: '' @ acl @
              ''. Please check the https://docs.aws.amazon.com/AmazonS3/latest/userguide/acl-overview.html#canned-acl for valid ACLs.'')),
            self, w)
      else (Inr (), self, w))"

text \<open>
  \<open>upload_from_local_file(self, file_path, bucket_name, object_name, acl="public-read",
  bucket_domain="")\<close>.
\<close>

definition upload_from_local_file ::
  "('c, 'w) env \<Rightarrow> 'c AmazonS3 \<Rightarrow> string \<Rightarrow> string \<Rightarrow> string \<Rightarrow> string option \<Rightarrow> string option
     \<Rightarrow> ('c, 'w) world \<Rightarrow> (exn + string) \<times> 'c AmazonS3 \<times> ('c, 'w) world" where
  "upload_from_local_file env self file_path bucket_name object_name acl_arg bucket_domain_arg w =
     (let acl = default_arg ''public-read'' acl_arg;
          bucket_domain = default_arg [] bucket_domain_arg;
          (r, w1) = call_upload_file env (s3_raw_client self)
                      file_path bucket_name object_name [(''ACL'', acl)] w
      in case r of
           Some e \<Rightarrow> (Inl e, self, w1)
         | None \<Rightarrow>
             (let public_url =
                    (if bucket_domain \<noteq> []
                     then ''https://'' @ bucket_domain @ ''/'' @ object_name
                     else ''https://'' @ bucket_name @ ''.s3.amazonaws.com/'' @ object_name)
              in (Inr public_url, self, w1)))"

text \<open>
  \<open>upload_from_url(self, url, bucket_name, object_name, acl="public-read",
  bucket_domain="")\<close>.
\<close>

definition upload_from_url ::
  "('c, 'w) env \<Rightarrow> 'c AmazonS3 \<Rightarrow> string \<Rightarrow> string \<Rightarrow> string \<Rightarrow> string option \<Rightarrow> string option
     \<Rightarrow> ('c, 'w) world \<Rightarrow> (exn + string) \<times> 'c AmazonS3 \<times> ('c, 'w) world" where
  "upload_from_url env self url bucket_name object_name acl_arg bucket_domain_arg w =
     (let acl = default_arg ''public-read'' acl_arg;
          bucket_domain = default_arg [] bucket_domain_arg;
          (g, w1) = call_requests_get env url w
      in case g of
           Inl e \<Rightarrow> (Inl e, self, w1)
         | Inr response \<Rightarrow>
             (case raise_for_status env response of
                Some e \<Rightarrow> (Inl e, self, w1)
              | None \<Rightarrow>
                  (let (r, w2) = call_put_object env (s3_raw_client self)
                                   bucket_name object_name (BytesIO (content response)) acl w1
                   in case r of
                        Some e \<Rightarrow> (Inl e, self, w2)
                      | None \<Rightarrow>
                          (let public_url =
                                 (if bucket_domain \<noteq> []
                                  then ''https://'' @ bucket_domain @ ''/'' @ object_name
                                  else ''https://'' @ bucket_name @ ''.s3.amazonaws.com/'' @ object_name)
                           in (Inr public_url, self, w2)))))"

subsection \<open>class CloudflareR2(AmazonS3)\<close>

text \<open>
  \<open>__init__(self, aws_access_key_id, aws_secret_access_key, endpoint_url)\<close>: the third
  parameter has no default, so a call without it raises \<open>TypeError\<close> before the body
  runs. The body is \<open>super().__init__(aws_access_key_id, aws_secret_access_key,
  endpoint_url)\<close>. The class defines nothing else: its methods are those of \<open>AmazonS3\<close>,
  on an object with the same attributes.
\<close>

definition CloudflareR2_init ::
  "('c, 'w) env \<Rightarrow> string \<Rightarrow> string \<Rightarrow> pyval option \<Rightarrow> ('c, 'w) world
     \<Rightarrow> (exn + 'c AmazonS3) \<times> ('c, 'w) world" where
  "CloudflareR2_init env key_id secret endpoint_url_arg w =
     (case endpoint_url_arg of
        None \<Rightarrow> (Inl (TypeError ''endpoint_url''), w)
      | Some endpoint_url \<Rightarrow> AmazonS3_init env key_id secret (Some endpoint_url) w)"

subsection \<open>A substitute for the libraries\<close>

text \<open>
  A stand-in for \<open>boto3\<close> and \<open>requests\<close>, to run the module on concrete inputs. The
  client object is the configuration it was made with, and the outside world counts
  the requests served. The storage service refuses the bucket \<open>forbidden\<close> and the
  file \<open>/nonexistent\<close> cannot be read; the web server knows one page, \<open>http://host/hi\<close>,
  and answers 404 for any other; \<open>raise_for_status\<close> raises for the statuses 400 to 599.
\<close>

type_synonym fake_client = "string \<times> pyval \<times> string"

definition fake_env :: "(fake_client, nat) env" where
  "fake_env =
     \<lparr>boto3_client = (\<lambda>service k endpoint s n. (Inr (k, endpoint, s), n)),
      upload_file = (\<lambda>c filename bucket key extra_args n.
         if filename = ''/nonexistent'' then (Some (LibraryError ''FileNotFoundError'' filename), n)
         else if bucket = ''forbidden'' then (Some (LibraryError ''S3UploadFailedError'' bucket), Suc n)
         else (None, Suc n)),
      put_object = (\<lambda>c bucket key body acl n.
         if bucket = ''forbidden'' then (Some (LibraryError ''ClientError'' bucket), Suc n)
         else (None, Suc n)),
      requests_get = (\<lambda>url n.
         if url = ''http://host/hi''
         then (Inr \<lparr>status_code = 200, content = [104, 105]\<rparr>, Suc n)
         else (Inr \<lparr>status_code = 404, content = []\<rparr>, Suc n)),
      raise_for_status = (\<lambda>r.
         if 400 \<le> status_code r \<and> status_code r < 600
         then Some (LibraryError ''HTTPError'' ''Client or Server Error'')
         else None)\<rparr>"

definition fake_self :: "fake_client AmazonS3" where
  "fake_self =
     \<lparr>aws_access_key_id = ''AKID'', aws_secret_access_key = ''SECRET'',
      s3_raw_client = (''AKID'', PyNone, ''SECRET'')\<rparr>"

definition fake_world :: "(fake_client, nat) world" where
  "fake_world = \<lparr>ext = 0, calls = []\<rparr>"

text \<open>
  The same stand-in behind a web server that answers every GET with 304 Not Modified
  and an empty body: a status outside 200 to 299 for which \<open>raise_for_status\<close>, raising
  for 400 to 599 only, does not raise.
\<close>

definition not_modified_env :: "(fake_client, nat) env" where
  "not_modified_env =
     fake_env\<lparr>requests_get := (\<lambda>url n. (Inr \<lparr>status_code = 304, content = []\<rparr>, Suc n))\<rparr>"

section \<open>Running the operations\<close>

text \<open>
  What each operation returns, given what the library calls it makes return: the
  outcome, the object, and the outside world with the log of the calls made.
\<close>

lemma upload_from_local_file_run:
  assumes "upload_file env (s3_raw_client self) file_path bucket_name object_name
             [(''ACL'', default_arg ''public-read'' acl_arg)] (ext w) = (r, x)"
  shows "upload_from_local_file env self file_path bucket_name object_name acl_arg bucket_domain_arg w =
           (case r of
              Some e \<Rightarrow> Inl e
            | None \<Rightarrow> Inr (if default_arg [] bucket_domain_arg \<noteq> []
                           then ''https://'' @ default_arg [] bucket_domain_arg @ ''/'' @ object_name
                           else ''https://'' @ bucket_name @ ''.s3.amazonaws.com/'' @ object_name),
            self,
            \<lparr>ext = x,
             calls = calls w @ [UploadFile (s3_raw_client self) file_path bucket_name object_name
                                  [(''ACL'', default_arg ''public-read'' acl_arg)]]\<rparr>)"
  using assms by (simp add: upload_from_local_file_def call_upload_file_def split: option.splits)

lemma upload_from_url_get_raises:
  assumes "requests_get env url (ext w) = (Inl e, x)"
  shows "upload_from_url env self url bucket_name object_name acl_arg bucket_domain_arg w =
           (Inl e, self, \<lparr>ext = x, calls = calls w @ [RequestsGet url]\<rparr>)"
  using assms by (simp add: upload_from_url_def call_requests_get_def)

lemma upload_from_url_bad_status:
  assumes "requests_get env url (ext w) = (Inr resp, x)"
    and "raise_for_status env resp = Some e"
  shows "upload_from_url env self url bucket_name object_name acl_arg bucket_domain_arg w =
           (Inl e, self, \<lparr>ext = x, calls = calls w @ [RequestsGet url]\<rparr>)"
  using assms by (simp add: upload_from_url_def call_requests_get_def)

lemma upload_from_url_run:
  assumes "requests_get env url (ext w) = (Inr resp, x)"
    and "raise_for_status env resp = None"
    and "put_object env (s3_raw_client self) bucket_name object_name (BytesIO (content resp))
           (default_arg ''public-read'' acl_arg) x = (r, y)"
  shows "upload_from_url env self url bucket_name object_name acl_arg bucket_domain_arg w =
           (case r of
              Some e \<Rightarrow> Inl e
            | None \<Rightarrow> Inr (if default_arg [] bucket_domain_arg \<noteq> []
                           then ''https://'' @ default_arg [] bucket_domain_arg @ ''/'' @ object_name
                           else ''https://'' @ bucket_name @ ''.s3.amazonaws.com/'' @ object_name),
            self,
            \<lparr>ext = y,
             calls = calls w @ [RequestsGet url,
                       PutObject (s3_raw_client self) bucket_name object_name (BytesIO (content resp))
                         (default_arg ''public-read'' acl_arg)]\<rparr>)"
  using assms by (simp add: upload_from_url_def call_requests_get_def call_put_object_def split: option.splits)

lemma AmazonS3_init_run:
  assumes "boto3_client env ''s3'' key_id (default_arg PyNone endpoint_url_arg) secret (ext w) = (r, x)"
  shows "AmazonS3_init env key_id secret endpoint_url_arg w =
           (case r of
              Inl e \<Rightarrow> Inl e
            | Inr c \<Rightarrow> Inr \<lparr>aws_access_key_id = key_id, aws_secret_access_key = secret, s3_raw_client = c\<rparr>,
            \<lparr>ext = x,
             calls = calls w @ [Boto3Client ''s3'' key_id (default_arg PyNone endpoint_url_arg) secret]\<rparr>)"
  using assms by (simp add: AmazonS3_init_def call_boto3_client_def split: sum.splits)

subsection \<open>Evaluation on the substitute\<close>

lemma fake_upload_file [simp]:
  "upload_file fake_env c filename bucket key extra_args n =
     (if filename = ''/nonexistent'' then (Some (LibraryError ''FileNotFoundError'' filename), n)
      else if bucket = ''forbidden'' then (Some (LibraryError ''S3UploadFailedError'' bucket), Suc n)
      else (None, Suc n))"
  by (simp add: fake_env_def)

lemma fake_put_object [simp]:
  "put_object fake_env c bucket key body acl n =
     (if bucket = ''forbidden'' then (Some (LibraryError ''ClientError'' bucket), Suc n)
      else (None, Suc n))"
  by (simp add: fake_env_def)

lemma fake_requests_get [simp]:
  "requests_get fake_env url n =
     (if url = ''http://host/hi''
      then (Inr \<lparr>status_code = 200, content = [104, 105]\<rparr>, Suc n)
      else (Inr \<lparr>status_code = 404, content = []\<rparr>, Suc n))"
  by (simp add: fake_env_def)

lemma fake_raise_for_status [simp]:
  "raise_for_status fake_env r =
     (if 400 \<le> status_code r \<and> status_code r < 600
      then Some (LibraryError ''HTTPError'' ''Client or Server Error'')
      else None)"
  by (simp add: fake_env_def)

lemma fake_boto3_client [simp]:
  "boto3_client fake_env service k endpoint s n = (Inr (k, endpoint, s), n)"
  by (simp add: fake_env_def)

lemma fake_world_simps [simp]: "ext fake_world = 0" "calls fake_world = []"
  by (simp_all add: fake_world_def)

lemma fake_self_simps [simp]:
  "aws_access_key_id fake_self = ''AKID''"
  "aws_secret_access_key fake_self = ''SECRET''"
  "s3_raw_client fake_self = (''AKID'', PyNone, ''SECRET'')"
  by (simp_all add: fake_self_def)

lemma default_arg_simps [simp]: "default_arg d None = d" "default_arg d (Some v) = v"
  by (simp_all add: default_arg_def)

section \<open>The claims\<close>

subsection \<open>C1: the returned URL\<close>

text \<open>
  C1. Whenever \<open>upload_from_local_file\<close> or \<open>upload_from_url\<close> returns a string, it is
  \<open>https://{bucket_domain}/{object_name}\<close> when \<open>bucket_domain\<close> (the argument, or its
  default when it was omitted) is not empty, whatever the bucket name, and
  \<open>https://{bucket_name}.s3.amazonaws.com/{object_name}\<close> when it is empty.
\<close>

theorem upload_returns_public_url:
  assumes "fst (upload_from_local_file env self file_path bucket_name object_name acl_arg bucket_domain_arg w) = Inr u
           \<or> fst (upload_from_url env self url bucket_name object_name acl_arg bucket_domain_arg w) = Inr u"
    and "bucket_domain = default_arg [] bucket_domain_arg"
  shows "(bucket_domain \<noteq> [] \<longrightarrow> u = ''https://'' @ bucket_domain @ ''/'' @ object_name)
       \<and> (bucket_domain = [] \<longrightarrow> u = ''https://'' @ bucket_name @ ''.s3.amazonaws.com/'' @ object_name)"
  using assms(1)
proof
  assume a: "fst (upload_from_local_file env self file_path bucket_name object_name acl_arg bucket_domain_arg w) = Inr u"
  obtain r x where "upload_file env (s3_raw_client self) file_path bucket_name object_name
             [(''ACL'', default_arg ''public-read'' acl_arg)] (ext w) = (r, x)"
    by (cases "upload_file env (s3_raw_client self) file_path bucket_name object_name
             [(''ACL'', default_arg ''public-read'' acl_arg)] (ext w)")
  from a upload_from_local_file_run [OF this] assms(2) show ?thesis
    by (simp split: option.splits if_splits)
next
  assume a: "fst (upload_from_url env self url bucket_name object_name acl_arg bucket_domain_arg w) = Inr u"
  obtain g x where g: "requests_get env url (ext w) = (g, x)"
    by (cases "requests_get env url (ext w)")
  show ?thesis
  proof (cases g)
    case (Inl e)
    with a g upload_from_url_get_raises [of env url w e x] show ?thesis by simp
  next
    case (Inr resp)
    show ?thesis
    proof (cases "raise_for_status env resp")
      case (Some e)
      with a g Inr upload_from_url_bad_status [of env url w resp x e] show ?thesis by simp
    next
      case None
      obtain r y where "put_object env (s3_raw_client self) bucket_name object_name (BytesIO (content resp))
           (default_arg ''public-read'' acl_arg) x = (r, y)"
        by (cases "put_object env (s3_raw_client self) bucket_name object_name (BytesIO (content resp))
           (default_arg ''public-read'' acl_arg) x")
      from a assms(2) upload_from_url_run [OF g [unfolded Inr] None this] show ?thesis
        by (simp split: option.splits if_splits)
    qed
  qed
qed

text \<open>
  The two scenarios of the specification, on the substitute: a local file with a custom
  domain, and a fetched page with none.
\<close>

theorem upload_returns_public_url_witness:
  "fst (upload_from_local_file fake_env fake_self ''/tmp/x.png'' ''mybucket'' ''images/x.png''
          None (Some ''cdn.example.com'') fake_world) = Inr ''https://cdn.example.com/images/x.png''
   \<and> fst (upload_from_url fake_env fake_self ''http://host/hi'' ''mybucket'' ''images/x.png''
          None None fake_world) = Inr ''https://mybucket.s3.amazonaws.com/images/x.png''"
proof -
  have h1: "fst (upload_from_local_file fake_env fake_self ''/tmp/x.png'' ''mybucket'' ''images/x.png''
          None (Some ''cdn.example.com'') fake_world) = Inr ''https://cdn.example.com/images/x.png''"
    by (simp add: upload_from_local_file_def call_upload_file_def)
  have h2: "fst (upload_from_url fake_env fake_self ''http://host/hi'' ''mybucket'' ''images/x.png''
          None None fake_world) = Inr ''https://mybucket.s3.amazonaws.com/images/x.png''"
    by (simp add: upload_from_url_def call_requests_get_def call_put_object_def)
  have "''https://cdn.example.com/images/x.png'' = ''https://'' @ ''cdn.example.com'' @ ''/'' @ ''images/x.png''"
    using upload_returns_public_url [OF disjI1 [OF h1], of "''cdn.example.com''"] by simp
  moreover have "''https://mybucket.s3.amazonaws.com/images/x.png'' = ''https://'' @ ''mybucket'' @ ''.s3.amazonaws.com/'' @ ''images/x.png''"
    using upload_returns_public_url [OF disjI2 [OF h2], of "[]"] by simp
  ultimately show ?thesis using h1 h2 by simp
qed

subsection \<open>C2: the ACL check\<close>

text \<open>
  C2. \<open>_check_acl\<close> raises if and only if \<open>acl\<close> is not empty and is none of the eight
  canned ACLs; what it raises is the \<open>ValueError\<close> whose message names the value and
  points to the documentation; otherwise it returns and changes nothing.
\<close>

theorem check_acl_raises_iff:
  "((\<exists>e. fst (check_acl self acl w) = Inl e) \<longleftrightarrow>
      acl \<noteq> [] \<and> acl \<notin> {''private'', ''public-read'', ''public-read-write'', ''authenticated-read'',
                            ''aws-exec-read'', ''bucket-owner-read'', ''bucket-owner-full-control'',
                            ''log-delivery-write''})
   \<and> (\<forall>e. fst (check_acl self acl w) = Inl e \<longrightarrow>
          e = ValueError (''Invalid ACL: '' @ acl @
                ''. Please check the https://docs.aws.amazon.com/AmazonS3/latest/userguide/acl-overview.html#canned-acl for valid ACLs.''))
   \<and> ((\<forall>e. fst (check_acl self acl w) \<noteq> Inl e) \<longrightarrow> check_acl self acl w = (Inr (), self, w))"
  unfolding check_acl_def VALID_ACL_def set_simps by (cases "acl = []") auto

text \<open>An ACL that is refused, one of the eight, and the empty one.\<close>

theorem check_acl_raises_iff_witness:
  "(\<exists>e. fst (check_acl fake_self ''public'' fake_world) = Inl e)
   \<and> check_acl fake_self ''public-read'' fake_world = (Inr (), fake_self, fake_world)
   \<and> check_acl fake_self [] fake_world = (Inr (), fake_self, fake_world)"
  using check_acl_raises_iff [of fake_self "''public''" fake_world]
        check_acl_raises_iff [of fake_self "''public-read''" fake_world]
        check_acl_raises_iff [of fake_self "[]" fake_world]
  by simp

subsection \<open>C3: a failed fetch\<close>

text \<open>
  C3, as amended. The operation decides with \<open>response.raise_for_status()\<close>, not with
  the status being outside 200 to 299. When the GET of \<open>upload_from_url\<close> returns a
  response on which \<open>raise_for_status\<close> raises (404, say), the operation raises that
  exception and \<open>put_object\<close> is not called: the only call made is the GET.
\<close>

theorem failed_fetch_skips_put_object:
  assumes "requests_get env url (ext w) = (Inr resp, x)"
    and "raise_for_status env resp = Some e"
    and "w' = snd (snd (upload_from_url env self url bucket_name object_name acl_arg bucket_domain_arg w))"
  shows "fst (upload_from_url env self url bucket_name object_name acl_arg bucket_domain_arg w) = Inl e
       \<and> calls w' = calls w @ [RequestsGet url]
       \<and> (\<forall>c b k body a. PutObject c b k body a \<notin> set (drop (length (calls w)) (calls w')))
       \<and> ext w' = x"
  using assms(3) upload_from_url_bad_status [OF assms(1,2)] by simp

text \<open>A page the substitute's web server does not know: status 404.\<close>

theorem failed_fetch_skips_put_object_witness:
  "requests_get fake_env ''http://host/gone'' (ext fake_world) = (Inr \<lparr>status_code = 404, content = []\<rparr>, 1)
   \<and> raise_for_status fake_env \<lparr>status_code = 404, content = []\<rparr>
        = Some (LibraryError ''HTTPError'' ''Client or Server Error'')
   \<and> upload_from_url fake_env fake_self ''http://host/gone'' ''mybucket'' ''images/x.png'' None None fake_world
        = (Inl (LibraryError ''HTTPError'' ''Client or Server Error''), fake_self,
           \<lparr>ext = 1, calls = [RequestsGet ''http://host/gone'']\<rparr>)"
proof -
  have g: "requests_get fake_env ''http://host/gone'' (ext fake_world) = (Inr \<lparr>status_code = 404, content = []\<rparr>, 1)"
    by simp
  have s: "raise_for_status fake_env \<lparr>status_code = 404, content = []\<rparr>
             = Some (LibraryError ''HTTPError'' ''Client or Server Error'')"
    by simp
  have "fst (upload_from_url fake_env fake_self ''http://host/gone'' ''mybucket'' ''images/x.png'' None None fake_world)
          = Inl (LibraryError ''HTTPError'' ''Client or Server Error'')
        \<and> calls (snd (snd (upload_from_url fake_env fake_self ''http://host/gone'' ''mybucket'' ''images/x.png'' None None fake_world)))
          = calls fake_world @ [RequestsGet ''http://host/gone'']
        \<and> (\<forall>c b k body a. PutObject c b k body a \<notin> set (drop (length (calls fake_world))
              (calls (snd (snd (upload_from_url fake_env fake_self ''http://host/gone'' ''mybucket'' ''images/x.png'' None None fake_world))))))
        \<and> ext (snd (snd (upload_from_url fake_env fake_self ''http://host/gone'' ''mybucket'' ''images/x.png'' None None fake_world))) = 1"
    by (rule failed_fetch_skips_put_object [OF g s refl])
  moreover have "fst (snd (upload_from_url fake_env fake_self ''http://host/gone'' ''mybucket'' ''images/x.png'' None None fake_world)) = fake_self"
    by (simp add: upload_from_url_def call_requests_get_def)
  ultimately have "upload_from_url fake_env fake_self ''http://host/gone'' ''mybucket'' ''images/x.png'' None None fake_world
        = (Inl (LibraryError ''HTTPError'' ''Client or Server Error''), fake_self,
           \<lparr>ext = 1, calls = [RequestsGet ''http://host/gone'']\<rparr>)"
    by (simp add: prod_eq_iff)
  with g s show ?thesis by simp
qed

text \<open>
  C3, as it was stated, fails: a status that is not a success status does not always
  stop the upload. The GET below returns 304, which is not in 200 to 299, and
  \<open>raise_for_status\<close> raises for 400 to 599 only; the operation calls \<open>put_object\<close> and
  returns the URL.
\<close>

theorem non_success_status_uploads_counterexample:
  "requests_get not_modified_env ''http://host/page'' (ext fake_world)
     = (Inr \<lparr>status_code = 304, content = []\<rparr>, 1)
   \<and> \<not> (200 \<le> status_code \<lparr>status_code = 304, content = []\<rparr>
          \<and> status_code \<lparr>status_code = 304, content = []\<rparr> < 300)
   \<and> upload_from_url not_modified_env fake_self ''http://host/page'' ''mybucket'' ''x.png'' None None fake_world
     = (Inr ''https://mybucket.s3.amazonaws.com/x.png'', fake_self,
        \<lparr>ext = 2,
         calls = [RequestsGet ''http://host/page'',
                  PutObject (''AKID'', PyNone, ''SECRET'') ''mybucket'' ''x.png''
                    \<lparr>buffer = [], position = 0\<rparr> ''public-read'']\<rparr>)"
proof -
  have g: "requests_get not_modified_env ''http://host/page'' (ext fake_world)
             = (Inr \<lparr>status_code = 304, content = []\<rparr>, 1)"
    by (simp add: not_modified_env_def)
  have s: "raise_for_status not_modified_env \<lparr>status_code = 304, content = []\<rparr> = None"
    by (simp add: not_modified_env_def)
  have p: "put_object not_modified_env (s3_raw_client fake_self) ''mybucket'' ''x.png''
             (BytesIO (content \<lparr>status_code = 304, content = []\<rparr>)) (default_arg ''public-read'' None) 1
             = (None, 2)"
    by (simp add: not_modified_env_def)
  from upload_from_url_run [OF g s p, of None] g show ?thesis
    by (simp add: BytesIO_def)
qed

subsection \<open>C4: the body that is uploaded\<close>

text \<open>
  C4. When the GET succeeds, the body handed to \<open>put_object\<close> is a stream over exactly
  the bytes of the response's content, read from its start: nothing is added, dropped
  or re-encoded.
\<close>

theorem put_object_body_is_response_content:
  assumes "requests_get env url (ext w) = (Inr resp, x)"
    and "raise_for_status env resp = None"
  shows "\<exists>body. calls (snd (snd (upload_from_url env self url bucket_name object_name acl_arg bucket_domain_arg w)))
                  = calls w @ [RequestsGet url,
                      PutObject (s3_raw_client self) bucket_name object_name body
                        (default_arg ''public-read'' acl_arg)]
              \<and> body = BytesIO (content resp)
              \<and> bytesio_read body = content resp
              \<and> buffer body = content resp"
proof -
  obtain r y where "put_object env (s3_raw_client self) bucket_name object_name (BytesIO (content resp))
           (default_arg ''public-read'' acl_arg) x = (r, y)"
    by (cases "put_object env (s3_raw_client self) bucket_name object_name (BytesIO (content resp))
           (default_arg ''public-read'' acl_arg) x")
  from upload_from_url_run [OF assms this] show ?thesis
    by (simp add: BytesIO_def bytesio_read_def)
qed

text \<open>The page \<open>http://host/hi\<close>, whose content is the two bytes 104 and 105.\<close>

theorem put_object_body_is_response_content_witness:
  "requests_get fake_env ''http://host/hi'' (ext fake_world) = (Inr \<lparr>status_code = 200, content = [104, 105]\<rparr>, 1)
   \<and> raise_for_status fake_env \<lparr>status_code = 200, content = [104, 105]\<rparr> = None
   \<and> calls (snd (snd (upload_from_url fake_env fake_self ''http://host/hi'' ''mybucket'' ''hi.txt'' None None fake_world)))
       = [RequestsGet ''http://host/hi'',
          PutObject (''AKID'', PyNone, ''SECRET'') ''mybucket'' ''hi.txt'' \<lparr>buffer = [104, 105], position = 0\<rparr> ''public-read'']
   \<and> bytesio_read \<lparr>buffer = [104, 105], position = 0\<rparr> = [104, 105 :: byte]"
proof -
  have g: "requests_get fake_env ''http://host/hi'' (ext fake_world) = (Inr \<lparr>status_code = 200, content = [104, 105]\<rparr>, 1)"
    by simp
  have s: "raise_for_status fake_env \<lparr>status_code = 200, content = [104, 105]\<rparr> = None"
    by simp
  from put_object_body_is_response_content [OF g s, of fake_self "''mybucket''" "''hi.txt''" None None]
  show ?thesis using g s by (simp add: BytesIO_def)
qed

subsection \<open>C5: the ACL is not checked by the uploads\<close>

text \<open>
  C5. Neither upload operation nor the constructor calls \<open>_check_acl\<close>. For every
  \<open>acl\<close>, valid or not, the value reaches the SDK call as it was given, and the
  operation raises only what a library call raised: no validation error of its own.
\<close>

theorem uploads_forward_acl_unchecked:
  "calls (snd (snd (upload_from_local_file env self file_path bucket_name object_name (Some acl) bucket_domain_arg w)))
     = calls w @ [UploadFile (s3_raw_client self) file_path bucket_name object_name [(''ACL'', acl)]]
   \<and> (fst (upload_from_local_file env self file_path bucket_name object_name (Some acl) bucket_domain_arg w) = Inl e
        \<longleftrightarrow> fst (upload_file env (s3_raw_client self) file_path bucket_name object_name [(''ACL'', acl)] (ext w)) = Some e)
   \<and> (\<forall>resp x. requests_get env url (ext w) = (Inr resp, x) \<and> raise_for_status env resp = None \<longrightarrow>
         calls (snd (snd (upload_from_url env self url bucket_name object_name (Some acl) bucket_domain_arg w)))
           = calls w @ [RequestsGet url,
               PutObject (s3_raw_client self) bucket_name object_name (BytesIO (content resp)) acl]
         \<and> (fst (upload_from_url env self url bucket_name object_name (Some acl) bucket_domain_arg w) = Inl e
              \<longleftrightarrow> fst (put_object env (s3_raw_client self) bucket_name object_name (BytesIO (content resp)) acl x) = Some e))
   \<and> (fst (AmazonS3_init env key_id secret endpoint_url_arg w) = Inl e
        \<longleftrightarrow> fst (boto3_client env ''s3'' key_id (default_arg PyNone endpoint_url_arg) secret (ext w)) = Inl e)"
proof -
  obtain r x where u: "upload_file env (s3_raw_client self) file_path bucket_name object_name
             [(''ACL'', default_arg ''public-read'' (Some acl))] (ext w) = (r, x)"
    by (cases "upload_file env (s3_raw_client self) file_path bucket_name object_name
             [(''ACL'', default_arg ''public-read'' (Some acl))] (ext w)")
  have local: "calls (snd (snd (upload_from_local_file env self file_path bucket_name object_name (Some acl) bucket_domain_arg w)))
     = calls w @ [UploadFile (s3_raw_client self) file_path bucket_name object_name [(''ACL'', acl)]]
   \<and> (fst (upload_from_local_file env self file_path bucket_name object_name (Some acl) bucket_domain_arg w) = Inl e
        \<longleftrightarrow> fst (upload_file env (s3_raw_client self) file_path bucket_name object_name [(''ACL'', acl)] (ext w)) = Some e)"
    using u upload_from_local_file_run [OF u, of bucket_domain_arg]
    by (simp split: option.splits)
  have remote: "calls (snd (snd (upload_from_url env self url bucket_name object_name (Some acl) bucket_domain_arg w)))
           = calls w @ [RequestsGet url,
               PutObject (s3_raw_client self) bucket_name object_name (BytesIO (content resp)) acl]
         \<and> (fst (upload_from_url env self url bucket_name object_name (Some acl) bucket_domain_arg w) = Inl e
              \<longleftrightarrow> fst (put_object env (s3_raw_client self) bucket_name object_name (BytesIO (content resp)) acl x) = Some e)"
    if g: "requests_get env url (ext w) = (Inr resp, x)" and s: "raise_for_status env resp = None"
    for resp x
  proof -
    obtain r y where p: "put_object env (s3_raw_client self) bucket_name object_name (BytesIO (content resp))
           (default_arg ''public-read'' (Some acl)) x = (r, y)"
      by (cases "put_object env (s3_raw_client self) bucket_name object_name (BytesIO (content resp))
           (default_arg ''public-read'' (Some acl)) x")
    from p upload_from_url_run [OF g s p, of bucket_domain_arg] show ?thesis
      by (simp split: option.splits)
  qed
  obtain c z where b: "boto3_client env ''s3'' key_id (default_arg PyNone endpoint_url_arg) secret (ext w) = (c, z)"
    by (cases "boto3_client env ''s3'' key_id (default_arg PyNone endpoint_url_arg) secret (ext w)")
  have init: "fst (AmazonS3_init env key_id secret endpoint_url_arg w) = Inl e
        \<longleftrightarrow> fst (boto3_client env ''s3'' key_id (default_arg PyNone endpoint_url_arg) secret (ext w)) = Inl e"
    using b AmazonS3_init_run [OF b] by (simp split: sum.splits)
  from local remote init show ?thesis by simp
qed

text \<open>
  The value \<open>bogus\<close>, which \<open>_check_acl\<close> refuses, is passed on by both uploads, and
  both return.
\<close>

theorem uploads_forward_acl_unchecked_witness:
  "(\<exists>e. fst (check_acl fake_self ''bogus'' fake_world) = Inl e)
   \<and> calls (snd (snd (upload_from_local_file fake_env fake_self ''/tmp/x.png'' ''mybucket'' ''x.png''
               (Some ''bogus'') None fake_world)))
       = [UploadFile (''AKID'', PyNone, ''SECRET'') ''/tmp/x.png'' ''mybucket'' ''x.png'' [(''ACL'', ''bogus'')]]
   \<and> (\<forall>e. fst (upload_from_local_file fake_env fake_self ''/tmp/x.png'' ''mybucket'' ''x.png''
               (Some ''bogus'') None fake_world) \<noteq> Inl e)
   \<and> calls (snd (snd (upload_from_url fake_env fake_self ''http://host/hi'' ''mybucket'' ''hi.txt''
               (Some ''bogus'') None fake_world)))
       = [RequestsGet ''http://host/hi'',
          PutObject (''AKID'', PyNone, ''SECRET'') ''mybucket'' ''hi.txt'' (BytesIO [104, 105]) ''bogus'']
   \<and> (\<forall>e. fst (upload_from_url fake_env fake_self ''http://host/hi'' ''mybucket'' ''hi.txt''
               (Some ''bogus'') None fake_world) \<noteq> Inl e)"
proof -
  have v: "\<exists>e. fst (check_acl fake_self ''bogus'' fake_world) = Inl e"
    by (simp add: check_acl_def VALID_ACL_def)
  have "calls (snd (snd (upload_from_local_file fake_env fake_self ''/tmp/x.png'' ''mybucket'' ''x.png''
               (Some ''bogus'') None fake_world)))
       = [UploadFile (''AKID'', PyNone, ''SECRET'') ''/tmp/x.png'' ''mybucket'' ''x.png'' [(''ACL'', ''bogus'')]]
   \<and> fst (upload_from_local_file fake_env fake_self ''/tmp/x.png'' ''mybucket'' ''x.png''
               (Some ''bogus'') None fake_world) \<noteq> Inl e
   \<and> calls (snd (snd (upload_from_url fake_env fake_self ''http://host/hi'' ''mybucket'' ''hi.txt''
               (Some ''bogus'') None fake_world)))
       = [RequestsGet ''http://host/hi'',
          PutObject (''AKID'', PyNone, ''SECRET'') ''mybucket'' ''hi.txt'' (BytesIO [104, 105]) ''bogus'']
   \<and> fst (upload_from_url fake_env fake_self ''http://host/hi'' ''mybucket'' ''hi.txt''
               (Some ''bogus'') None fake_world) \<noteq> Inl e" for e
    using uploads_forward_acl_unchecked [of fake_env fake_self "''/tmp/x.png''" "''mybucket''" "''x.png''"
            "''bogus''" None fake_world e "''http://host/nowhere''"]
          uploads_forward_acl_unchecked [of fake_env fake_self "''/nonexistent''" "''mybucket''" "''hi.txt''"
            "''bogus''" None fake_world e "''http://host/hi''"]
    by simp
  with v show ?thesis by simp
qed

subsection \<open>C6: the endpoint argument\<close>

text \<open>
  C6. Constructing \<open>CloudflareR2\<close> without \<open>endpoint_url\<close> fails with a \<open>TypeError\<close>,
  before anything is called. Constructing \<open>AmazonS3\<close> without it binds the parameter to
  \<open>None\<close>, calls \<open>boto3.client\<close> with that, and returns the object whenever
  \<open>boto3.client\<close> returns; it raises nothing of its own.
\<close>

theorem endpoint_required_by_CloudflareR2_only:
  "CloudflareR2_init env key_id secret None w = (Inl (TypeError ''endpoint_url''), w)
   \<and> (\<forall>c x. boto3_client env ''s3'' key_id PyNone secret (ext w) = (Inr c, x) \<longrightarrow>
         AmazonS3_init env key_id secret None w =
           (Inr \<lparr>aws_access_key_id = key_id, aws_secret_access_key = secret, s3_raw_client = c\<rparr>,
            \<lparr>ext = x, calls = calls w @ [Boto3Client ''s3'' key_id PyNone secret]\<rparr>))
   \<and> (\<forall>e. fst (AmazonS3_init env key_id secret None w) = Inl e \<longrightarrow>
         fst (boto3_client env ''s3'' key_id PyNone secret (ext w)) = Inl e)"
proof -
  have r2: "CloudflareR2_init env key_id secret None w = (Inl (TypeError ''endpoint_url''), w)"
    by (simp add: CloudflareR2_init_def)
  obtain r z where b: "boto3_client env ''s3'' key_id (default_arg PyNone None) secret (ext w) = (r, z)"
    by (cases "boto3_client env ''s3'' key_id (default_arg PyNone None) secret (ext w)")
  from b AmazonS3_init_run [OF b] r2 show ?thesis
    by (simp split: sum.splits)
qed

text \<open>Both constructors without an endpoint, on the substitute.\<close>

theorem endpoint_required_by_CloudflareR2_only_witness:
  "CloudflareR2_init fake_env ''AKID'' ''SECRET'' None fake_world = (Inl (TypeError ''endpoint_url''), fake_world)
   \<and> boto3_client fake_env ''s3'' ''AKID'' PyNone ''SECRET'' (ext fake_world) = (Inr (''AKID'', PyNone, ''SECRET''), 0)
   \<and> AmazonS3_init fake_env ''AKID'' ''SECRET'' None fake_world =
       (Inr fake_self, \<lparr>ext = 0, calls = [Boto3Client ''s3'' ''AKID'' PyNone ''SECRET'']\<rparr>)"
  using endpoint_required_by_CloudflareR2_only [of fake_env "''AKID''" "''SECRET''" fake_world]
  by (simp add: fake_self_def)

subsection \<open>C7: CloudflareR2 against AmazonS3\<close>

text \<open>
  C7. With the same credentials and the same endpoint, the constructor of \<open>CloudflareR2\<close>
  does exactly what that of \<open>AmazonS3\<close> does: same library call, same outcome, same
  object. Every operation on the two objects then has the same result, the same error
  and the same effect.
\<close>

theorem CloudflareR2_behaves_as_AmazonS3:
  "CloudflareR2_init env key_id secret (Some endpoint_url) w
     = AmazonS3_init env key_id secret (Some endpoint_url) w
   \<and> (\<forall>r2 w2 s3 w3.
         CloudflareR2_init env key_id secret (Some endpoint_url) w = (Inr r2, w2)
         \<and> AmazonS3_init env key_id secret (Some endpoint_url) w = (Inr s3, w3) \<longrightarrow>
           upload_from_local_file env r2 file_path bucket_name object_name acl_arg bucket_domain_arg w2
             = upload_from_local_file env s3 file_path bucket_name object_name acl_arg bucket_domain_arg w3
           \<and> upload_from_url env r2 url bucket_name object_name acl_arg bucket_domain_arg w2
             = upload_from_url env s3 url bucket_name object_name acl_arg bucket_domain_arg w3
           \<and> check_acl r2 acl w2 = check_acl s3 acl w3)"
  by (auto simp add: CloudflareR2_init_def)

text \<open>Both constructors with an endpoint, on the substitute.\<close>

theorem CloudflareR2_behaves_as_AmazonS3_witness:
  "CloudflareR2_init fake_env ''AKID'' ''SECRET'' (Some (PyStr ''https://acct.r2.example.com'')) fake_world
     = (Inr \<lparr>aws_access_key_id = ''AKID'', aws_secret_access_key = ''SECRET'',
             s3_raw_client = (''AKID'', PyStr ''https://acct.r2.example.com'', ''SECRET'')\<rparr>,
        \<lparr>ext = 0, calls = [Boto3Client ''s3'' ''AKID'' (PyStr ''https://acct.r2.example.com'') ''SECRET'']\<rparr>)
   \<and> AmazonS3_init fake_env ''AKID'' ''SECRET'' (Some (PyStr ''https://acct.r2.example.com'')) fake_world
     = CloudflareR2_init fake_env ''AKID'' ''SECRET'' (Some (PyStr ''https://acct.r2.example.com'')) fake_world"
proof -
  have a: "AmazonS3_init fake_env ''AKID'' ''SECRET'' (Some (PyStr ''https://acct.r2.example.com'')) fake_world
     = (Inr \<lparr>aws_access_key_id = ''AKID'', aws_secret_access_key = ''SECRET'',
             s3_raw_client = (''AKID'', PyStr ''https://acct.r2.example.com'', ''SECRET'')\<rparr>,
        \<lparr>ext = 0, calls = [Boto3Client ''s3'' ''AKID'' (PyStr ''https://acct.r2.example.com'') ''SECRET'']\<rparr>)"
    by (simp add: AmazonS3_init_def call_boto3_client_def Let_def)
  from CloudflareR2_behaves_as_AmazonS3 [of fake_env "''AKID''" "''SECRET''" "PyStr ''https://acct.r2.example.com''" fake_world]
  have "CloudflareR2_init fake_env ''AKID'' ''SECRET'' (Some (PyStr ''https://acct.r2.example.com'')) fake_world
     = AmazonS3_init fake_env ''AKID'' ''SECRET'' (Some (PyStr ''https://acct.r2.example.com'')) fake_world"
    by (rule conjunct1)
  with a show ?thesis by simp
qed

subsection \<open>C8: errors are passed on\<close>

text \<open>
  C8. \<open>upload_from_local_file\<close> raises \<open>e\<close> if and only if \<open>upload_file\<close> raised \<open>e\<close>;
  \<open>upload_from_url\<close> raises \<open>e\<close> if and only if \<open>requests.get\<close>, \<open>raise_for_status\<close> or
  \<open>put_object\<close> raised \<open>e\<close>. The exception is the one the library raised, and each
  library function is called at most once: nothing is retried.
\<close>

theorem errors_propagate_unmodified:
  "(fst (upload_from_local_file env self file_path bucket_name object_name acl_arg bucket_domain_arg w) = Inl e
      \<longleftrightarrow> fst (upload_file env (s3_raw_client self) file_path bucket_name object_name
                  [(''ACL'', default_arg ''public-read'' acl_arg)] (ext w)) = Some e)
   \<and> calls (snd (snd (upload_from_local_file env self file_path bucket_name object_name acl_arg bucket_domain_arg w)))
       = calls w @ [UploadFile (s3_raw_client self) file_path bucket_name object_name
                      [(''ACL'', default_arg ''public-read'' acl_arg)]]
   \<and> (fst (upload_from_url env self url bucket_name object_name acl_arg bucket_domain_arg w) = Inl e
      \<longleftrightarrow> fst (requests_get env url (ext w)) = Inl e
          \<or> (\<exists>resp. fst (requests_get env url (ext w)) = Inr resp \<and> raise_for_status env resp = Some e)
          \<or> (\<exists>resp. fst (requests_get env url (ext w)) = Inr resp \<and> raise_for_status env resp = None
                \<and> fst (put_object env (s3_raw_client self) bucket_name object_name (BytesIO (content resp))
                         (default_arg ''public-read'' acl_arg) (snd (requests_get env url (ext w)))) = Some e))
   \<and> (calls (snd (snd (upload_from_url env self url bucket_name object_name acl_arg bucket_domain_arg w)))
         = calls w @ [RequestsGet url]
       \<or> (\<exists>resp :: response. calls (snd (snd (upload_from_url env self url bucket_name object_name acl_arg bucket_domain_arg w)))
            = calls w @ [RequestsGet url,
                PutObject (s3_raw_client self) bucket_name object_name (BytesIO (content resp))
                  (default_arg ''public-read'' acl_arg)]))"
proof -
  obtain r x where u: "upload_file env (s3_raw_client self) file_path bucket_name object_name
             [(''ACL'', default_arg ''public-read'' acl_arg)] (ext w) = (r, x)"
    by (cases "upload_file env (s3_raw_client self) file_path bucket_name object_name
             [(''ACL'', default_arg ''public-read'' acl_arg)] (ext w)")
  have local: "(fst (upload_from_local_file env self file_path bucket_name object_name acl_arg bucket_domain_arg w) = Inl e
      \<longleftrightarrow> fst (upload_file env (s3_raw_client self) file_path bucket_name object_name
                  [(''ACL'', default_arg ''public-read'' acl_arg)] (ext w)) = Some e)
   \<and> calls (snd (snd (upload_from_local_file env self file_path bucket_name object_name acl_arg bucket_domain_arg w)))
       = calls w @ [UploadFile (s3_raw_client self) file_path bucket_name object_name
                      [(''ACL'', default_arg ''public-read'' acl_arg)]]"
    using u upload_from_local_file_run [OF u, of bucket_domain_arg] by (simp split: option.splits)
  obtain g y where g: "requests_get env url (ext w) = (g, y)"
    by (cases "requests_get env url (ext w)")
  have remote: "(fst (upload_from_url env self url bucket_name object_name acl_arg bucket_domain_arg w) = Inl e
      \<longleftrightarrow> fst (requests_get env url (ext w)) = Inl e
          \<or> (\<exists>resp. fst (requests_get env url (ext w)) = Inr resp \<and> raise_for_status env resp = Some e)
          \<or> (\<exists>resp. fst (requests_get env url (ext w)) = Inr resp \<and> raise_for_status env resp = None
                \<and> fst (put_object env (s3_raw_client self) bucket_name object_name (BytesIO (content resp))
                         (default_arg ''public-read'' acl_arg) (snd (requests_get env url (ext w)))) = Some e))
   \<and> (calls (snd (snd (upload_from_url env self url bucket_name object_name acl_arg bucket_domain_arg w)))
         = calls w @ [RequestsGet url]
       \<or> (\<exists>resp :: response. calls (snd (snd (upload_from_url env self url bucket_name object_name acl_arg bucket_domain_arg w)))
            = calls w @ [RequestsGet url,
                PutObject (s3_raw_client self) bucket_name object_name (BytesIO (content resp))
                  (default_arg ''public-read'' acl_arg)]))"
    (is "?raises \<and> (?once \<or> ?twice)")
  proof (cases g)
    case (Inl e')
    with g upload_from_url_get_raises [of env url w e' y self bucket_name object_name acl_arg bucket_domain_arg]
    show ?thesis by simp
  next
    case (Inr resp)
    note g' = g [unfolded Inr]
    show ?thesis
    proof (cases "raise_for_status env resp")
      case (Some e')
      with g' upload_from_url_bad_status [OF g' Some, of self bucket_name object_name acl_arg bucket_domain_arg]
      show ?thesis by simp
    next
      case None
      obtain r z where p: "put_object env (s3_raw_client self) bucket_name object_name (BytesIO (content resp))
           (default_arg ''public-read'' acl_arg) y = (r, z)"
        by (cases "put_object env (s3_raw_client self) bucket_name object_name (BytesIO (content resp))
           (default_arg ''public-read'' acl_arg) y")
      note run = upload_from_url_run [OF g' None p, of bucket_domain_arg]
      from g' None p run have ?raises by (simp split: option.splits)
      moreover have ?twice by (rule exI [where x = resp]) (simp add: run)
      ultimately show ?thesis by (intro conjI disjI2)
    qed
  qed
  from local remote show ?thesis by simp
qed

text \<open>
  A local file that cannot be read, a bucket that refuses the object, and an upload that
  goes through.
\<close>

theorem errors_propagate_unmodified_witness:
  "fst (upload_from_local_file fake_env fake_self ''/nonexistent'' ''mybucket'' ''x.png'' None None fake_world)
     = Inl (LibraryError ''FileNotFoundError'' ''/nonexistent'')
   \<and> fst (upload_from_url fake_env fake_self ''http://host/hi'' ''forbidden'' ''hi.txt'' None None fake_world)
     = Inl (LibraryError ''ClientError'' ''forbidden'')
   \<and> (\<forall>e. fst (upload_from_url fake_env fake_self ''http://host/hi'' ''mybucket'' ''hi.txt'' None None fake_world)
           \<noteq> Inl e)"
proof -
  note local = errors_propagate_unmodified
    [of fake_env fake_self "''/nonexistent''" "''mybucket''" "''x.png''" None None fake_world
        "LibraryError ''FileNotFoundError'' ''/nonexistent''" "''http://host/hi''", THEN conjunct1]
  note refused = errors_propagate_unmodified
    [of fake_env fake_self "''/nonexistent''" "''forbidden''" "''hi.txt''" None None fake_world
        "LibraryError ''ClientError'' ''forbidden''" "''http://host/hi''",
     THEN conjunct2, THEN conjunct2, THEN conjunct1]
  have a: "fst (upload_from_local_file fake_env fake_self ''/nonexistent'' ''mybucket'' ''x.png'' None None fake_world)
     = Inl (LibraryError ''FileNotFoundError'' ''/nonexistent'')"
    by (rule iffD2 [OF local]) simp
  have b: "fst (upload_from_url fake_env fake_self ''http://host/hi'' ''forbidden'' ''hi.txt'' None None fake_world)
     = Inl (LibraryError ''ClientError'' ''forbidden'')"
    by (rule iffD2 [OF refused]) simp
  have c: "fst (upload_from_url fake_env fake_self ''http://host/hi'' ''mybucket'' ''hi.txt'' None None fake_world)
           \<noteq> Inl e" for e
  proof
    assume "fst (upload_from_url fake_env fake_self ''http://host/hi'' ''mybucket'' ''hi.txt'' None None fake_world)
              = Inl e"
    from iffD1 [OF errors_propagate_unmodified
          [of fake_env fake_self "''/nonexistent''" "''mybucket''" "''hi.txt''" None None fake_world
              e "''http://host/hi''", THEN conjunct2, THEN conjunct2, THEN conjunct1] this]
    show False by simp
  qed
  from a b c show ?thesis by (intro conjI allI)
qed

subsection \<open>C9: the credentials\<close>

text \<open>
  C9. The constructor stores the two credentials it is given, and no operation changes
  them: after \<open>upload_from_local_file\<close>, \<open>upload_from_url\<close> and \<open>_check_acl\<close>, whether
  they return or raise, both attributes are what they were.
\<close>

theorem credentials_are_never_changed:
  "(\<forall>self w'. AmazonS3_init env key_id secret endpoint_url_arg w = (Inr self, w') \<longrightarrow>
       aws_access_key_id self = key_id \<and> aws_secret_access_key self = secret)
   \<and> aws_access_key_id (fst (snd (upload_from_local_file env self file_path bucket_name object_name acl_arg bucket_domain_arg w)))
       = aws_access_key_id self
   \<and> aws_secret_access_key (fst (snd (upload_from_local_file env self file_path bucket_name object_name acl_arg bucket_domain_arg w)))
       = aws_secret_access_key self
   \<and> aws_access_key_id (fst (snd (upload_from_url env self url bucket_name object_name acl_arg bucket_domain_arg w)))
       = aws_access_key_id self
   \<and> aws_secret_access_key (fst (snd (upload_from_url env self url bucket_name object_name acl_arg bucket_domain_arg w)))
       = aws_secret_access_key self
   \<and> aws_access_key_id (fst (snd (check_acl self acl w))) = aws_access_key_id self
   \<and> aws_secret_access_key (fst (snd (check_acl self acl w))) = aws_secret_access_key self"
proof -
  obtain c z where b: "boto3_client env ''s3'' key_id (default_arg PyNone endpoint_url_arg) secret (ext w) = (c, z)"
    by (cases "boto3_client env ''s3'' key_id (default_arg PyNone endpoint_url_arg) secret (ext w)")
  have init: "\<forall>self w'. AmazonS3_init env key_id secret endpoint_url_arg w = (Inr self, w') \<longrightarrow>
       aws_access_key_id self = key_id \<and> aws_secret_access_key self = secret"
    using AmazonS3_init_run [OF b] by (auto split: sum.splits)
  have local: "fst (snd (upload_from_local_file env self file_path bucket_name object_name acl_arg bucket_domain_arg w)) = self"
    by (simp add: upload_from_local_file_def Let_def split: prod.splits option.splits)
  have remote: "fst (snd (upload_from_url env self url bucket_name object_name acl_arg bucket_domain_arg w)) = self"
    by (simp add: upload_from_url_def Let_def split: prod.splits option.splits sum.splits)
  have chk: "fst (snd (check_acl self acl w)) = self"
    by (simp add: check_acl_def)
  from init show ?thesis unfolding local remote chk by simp
qed

text \<open>The object the constructor makes on the substitute, before and after an upload.\<close>

theorem credentials_are_never_changed_witness:
  "AmazonS3_init fake_env ''AKID'' ''SECRET'' None fake_world
     = (Inr fake_self, \<lparr>ext = 0, calls = [Boto3Client ''s3'' ''AKID'' PyNone ''SECRET'']\<rparr>)
   \<and> aws_access_key_id fake_self = ''AKID'' \<and> aws_secret_access_key fake_self = ''SECRET''
   \<and> aws_access_key_id (fst (snd (upload_from_url fake_env fake_self ''http://host/gone'' ''mybucket'' ''x'' None None fake_world)))
       = ''AKID''
   \<and> aws_secret_access_key (fst (snd (upload_from_local_file fake_env fake_self ''/tmp/x.png'' ''mybucket'' ''x'' None None fake_world)))
       = ''SECRET''"
proof -
  have a: "AmazonS3_init fake_env ''AKID'' ''SECRET'' None fake_world
     = (Inr fake_self, \<lparr>ext = 0, calls = [Boto3Client ''s3'' ''AKID'' PyNone ''SECRET'']\<rparr>)"
    by (simp add: AmazonS3_init_def call_boto3_client_def fake_self_def)
  from a credentials_are_never_changed [of fake_env "''AKID''" "''SECRET''" None fake_world fake_self
          "''/tmp/x.png''" "''mybucket''" "''x''" None None "''http://host/gone''" "[]"]
  show ?thesis by simp
qed

subsection \<open>C10: default arguments\<close>

text \<open>
  C10. For both upload operations, leaving out \<open>acl\<close> is the same as passing
  \<open>public-read\<close>, and leaving out \<open>bucket_domain\<close> is the same as passing the empty
  string: the result, the object and the library calls made are equal.
\<close>

theorem omitted_arguments_take_defaults:
  "upload_from_local_file env self file_path bucket_name object_name None bucket_domain_arg w
     = upload_from_local_file env self file_path bucket_name object_name (Some ''public-read'') bucket_domain_arg w
   \<and> upload_from_local_file env self file_path bucket_name object_name acl_arg None w
     = upload_from_local_file env self file_path bucket_name object_name acl_arg (Some []) w
   \<and> upload_from_local_file env self file_path bucket_name object_name None None w
     = upload_from_local_file env self file_path bucket_name object_name (Some ''public-read'') (Some []) w
   \<and> upload_from_url env self url bucket_name object_name None bucket_domain_arg w
     = upload_from_url env self url bucket_name object_name (Some ''public-read'') bucket_domain_arg w
   \<and> upload_from_url env self url bucket_name object_name acl_arg None w
     = upload_from_url env self url bucket_name object_name acl_arg (Some []) w
   \<and> upload_from_url env self url bucket_name object_name None None w
     = upload_from_url env self url bucket_name object_name (Some ''public-read'') (Some []) w"
  by (simp add: upload_from_local_file_def upload_from_url_def)

end
